theory Spec2Isabelle
  imports Main "HOL-Library.AList"
begin

section \<open>Strings and paths\<close>

text \<open>
  Go strings are byte sequences; \<^typ>\<open>string\<close> is a list of bytes.
  \<^verbatim>\<open>strings.ToLower\<close> is modelled on ASCII letters (every resource name of
  the catalog is ASCII).
\<close>

definition lowerTable :: "(char \<times> char) list" where
  "lowerTable = zip ''ABCDEFGHIJKLMNOPQRSTUVWXYZ'' ''abcdefghijklmnopqrstuvwxyz''"

definition ToLower :: "string \<Rightarrow> string" where
  "ToLower s = map (\<lambda>c. case map_of lowerTable c of Some l \<Rightarrow> l | None \<Rightarrow> c) s"

definition HasSuffix :: "string \<Rightarrow> string \<Rightarrow> bool" where
  "HasSuffix s suffix =
     (length suffix \<le> length s \<and> drop (length s - length suffix) s = suffix)"

definition TrimSuffix :: "string \<Rightarrow> string \<Rightarrow> string" where
  "TrimSuffix s suffix =
     (if HasSuffix s suffix then take (length s - length suffix) s else s)"

text \<open>
  A path is the list of its components.  \<^verbatim>\<open>filepath.Join\<close> appends the
  elements and ignores the empty ones; the model does not interpret \<^verbatim>\<open>.\<close>,
  \<^verbatim>\<open>..\<close> or a separator inside an element.  \<open>pathString\<close> is the path
  as it is printed and passed on a command line.
\<close>

type_synonym path = "string list"

definition Join :: "path \<Rightarrow> string list \<Rightarrow> path" where
  "Join p elems = p @ filter (\<lambda>el. el \<noteq> []) elems"

fun pathString :: "path \<Rightarrow> string" where
  "pathString [] = []"
| "pathString [c] = c"
| "pathString (c # cs) = c @ ''/'' @ pathString cs"

text \<open>The decimal numeral that \<^verbatim>\<open>%d\<close> prints.\<close>

fun showNat :: "nat \<Rightarrow> string" where
  "showNat n =
     (if n < 10 then [''0123456789'' ! n]
      else showNat (n div 10) @ [''0123456789'' ! (n mod 10)])"

declare showNat.simps [simp del]

section \<open>The resource catalog\<close>

text \<open>
  The Go struct \<^verbatim>\<open>BackupConfigResource\<close> and the table returned by
  \<^verbatim>\<open>GetBackupConfig\<close>.  Fields a Go literal leaves out take the zero
  value (the empty string, false).  \<^verbatim>\<open>GetBackupConfig\<close> returns the table
  as it is: its Go result type has no error component.
\<close>

record BackupConfigResource =
  Name :: string
  ListCommand :: string
  GetCommand :: string
  RequiresIDs :: bool
  SourceIDDir :: string
  IsSingleton :: bool

record BackupConfig =
  FirstPassResources :: "BackupConfigResource list"
  SecondPassResources :: "BackupConfigResource list"
  SingletonResources :: "BackupConfigResource list"

definition firstPass :: "string \<Rightarrow> string \<Rightarrow> string \<Rightarrow> BackupConfigResource" where
  "firstPass n l g =
     \<lparr>Name = n, ListCommand = l, GetCommand = g, RequiresIDs = False,
      SourceIDDir = [], IsSingleton = False\<rparr>"

definition secondPass :: "string \<Rightarrow> string \<Rightarrow> string \<Rightarrow> BackupConfigResource" where
  "secondPass n l s =
     \<lparr>Name = n, ListCommand = l, GetCommand = [], RequiresIDs = True,
      SourceIDDir = s, IsSingleton = False\<rparr>"

definition singleton :: "string \<Rightarrow> string \<Rightarrow> BackupConfigResource" where
  "singleton n g =
     \<lparr>Name = n, ListCommand = [], GetCommand = g, RequiresIDs = False,
      SourceIDDir = [], IsSingleton = True\<rparr>"

definition GetBackupConfig :: BackupConfig where
  "GetBackupConfig =
     \<lparr>FirstPassResources =
        [firstPass ''user'' ''lists'' ''get'',
         firstPass ''group'' ''lists'' ''get'',
         firstPass ''userType'' ''lists'' ''get'',
         firstPass ''application'' ''lists'' ''get'',
         firstPass ''authorizationServer'' ''lists'' ''get'',
         firstPass ''identityProvider'' ''lists'' ''get'',
         firstPass ''networkZone'' ''lists'' ''get'',
         firstPass ''trustedOrigin'' ''lists'' ''get'',
         firstPass ''apiToken'' ''lists'' ''get'',
         firstPass ''customDomain'' ''lists'' ''get'',
         firstPass ''customization'' ''listBrands'' '''',
         firstPass ''eventHook'' ''lists'' ''get'',
         firstPass ''inlineHook'' ''lists'' ''get'',
         firstPass ''hookKey'' ''lists'' ''get'',
         firstPass ''role'' ''lists'' ''get'',
         firstPass ''feature'' ''lists'' ''get'',
         firstPass ''emailDomain'' ''lists'' ''get'',
         firstPass ''template'' ''listSmss'' ''getSms''],
      SecondPassResources =
        [secondPass ''group'' ''listUsers'' ''group'',
         secondPass ''group'' ''listAssignedApplicationsFor'' ''group'',
         secondPass ''user'' ''listAppLinks'' ''user'',
         secondPass ''user'' ''listGroups'' ''user'',
         secondPass ''user'' ''listGrants'' ''user'',
         secondPass ''user'' ''listIdentityProviders'' ''user'',
         secondPass ''userFactor'' ''listFactors'' ''user'',
         secondPass ''roleAssignment'' ''listAssignedRolesForUser'' ''user'',
         secondPass ''authorizationServerClaims'' ''listOAuth2Claims'' ''authorizationServer'',
         secondPass ''authorizationServerScopes'' ''listOAuth2Scopes'' ''authorizationServer'',
         secondPass ''authorizationServerPolicies'' ''list'' ''authorizationServer'',
         secondPass ''authorizationServerClients''
           ''listOAuth2ClientsForAuthorizationServer'' ''authorizationServer'',
         secondPass ''policy'' ''listRules'' ''policy'',
         secondPass ''authorizationServerRules''
           ''listAuthorizationServerPolicyRules'' ''authorizationServerPolicy'',
         secondPass ''identityProvider'' ''listKeys'' ''identityProvider'',
         secondPass ''identityProvider'' ''listSigningKeys'' ''identityProvider''],
      SingletonResources =
        [singleton ''orgSetting'' ''gets'',
         singleton ''orgSetting'' ''getOrgPreferences'',
         singleton ''orgSetting'' ''getOktaCommunicationSettings'',
         singleton ''orgSetting'' ''getOrgOktaSupportSettings'',
         singleton ''orgSetting'' ''getThirdPartyAdminSetting'',
         singleton ''orgSetting'' ''getWellknownOrgMetadata'',
         singleton ''attackProtection'' ''getUserLockoutSettings'',
         singleton ''attackProtection'' ''getAuthenticatorSettings'',
         singleton ''threatInsight'' ''getCurrentConfiguration'',
         singleton ''rateLimitSettings'' ''getPerClient'',
         singleton ''rateLimitSettings'' ''getWarningThreshold'',
         singleton ''rateLimitSettings'' ''getAdminNotifications'']\<rparr>"

text \<open>
  \<^verbatim>\<open>getParameterFlagForResource\<close>: a lookup in the literal Go map, with the
  fallback \<^verbatim>\<open>"id"\<close> for a name that is not a key.
\<close>

definition paramMap :: "(string \<times> string) list" where
  "paramMap =
     [(''group'', ''groupId''),
      (''user'', ''userId''),
      (''application'', ''applicationId''),
      (''authorizationServer'', ''authServerId''),
      (''authorizationServerPolicies'', ''authServerId''),
      (''authorizationServerRules'', ''policyId''),
      (''identityProvider'', ''idpId''),
      (''policy'', ''policyId''),
      (''userFactor'', ''userId''),
      (''roleAssignment'', ''userId''),
      (''applicationGroups'', ''appId''),
      (''applicationUsers'', ''appId''),
      (''applicationTokens'', ''appId''),
      (''applicationCredentials'', ''appId''),
      (''applicationFeatures'', ''appId''),
      (''applicationGrants'', ''appId''),
      (''authorizationServerClaims'', ''authServerId''),
      (''authorizationServerScopes'', ''authServerId''),
      (''authorizationServerClients'', ''authServerId''),
      (''groupOwner'', ''groupId'')]"

definition getParameterFlagForResource :: "string \<Rightarrow> string" where
  "getParameterFlagForResource resourceName =
     (case map_of paramMap resourceName of
        Some param \<Rightarrow> param
      | None \<Rightarrow> ''id'')"

section \<open>The file tree\<close>

text \<open>
  The directory tree the program reads and writes.  A directory holds its entries in
  the order \<^verbatim>\<open>os.ReadDir\<close> returns them.  \<open>LockedFile\<close> and
  \<open>LockedDir\<close> are a regular file and a directory that exist but cannot be read.
\<close>

datatype fsnode =
    File string
  | Dir "(string \<times> fsnode) list"
  | LockedFile
  | LockedDir

datatype oserror = ENOENT | ENOTDIR | EACCES | EISDIR

fun errorText :: "oserror \<Rightarrow> string" where
  "errorText ENOENT = ''no such file or directory''"
| "errorText ENOTDIR = ''not a directory''"
| "errorText EACCES = ''permission denied''"
| "errorText EISDIR = ''is a directory''"

fun IsDir :: "fsnode \<Rightarrow> bool" where
  "IsDir (Dir es) = True"
| "IsDir LockedDir = True"
| "IsDir (File d) = False"
| "IsDir LockedFile = False"

fun IsRegular :: "fsnode \<Rightarrow> bool" where
  "IsRegular (File d) = True"
| "IsRegular LockedFile = True"
| "IsRegular (Dir es) = False"
| "IsRegular LockedDir = False"

fun walk :: "fsnode \<Rightarrow> path \<Rightarrow> oserror + fsnode" where
  "walk n [] = Inr n"
| "walk n (c # cs) =
     (case n of
        Dir es \<Rightarrow> (case map_of es c of None \<Rightarrow> Inl ENOENT | Some n' \<Rightarrow> walk n' cs)
      | LockedDir \<Rightarrow> Inl EACCES
      | File d \<Rightarrow> Inl ENOTDIR
      | LockedFile \<Rightarrow> Inl ENOTDIR)"

text \<open>
  \<open>notExist t p\<close> is the Go test
  \<^verbatim>\<open>_, err := os.Stat(p); os.IsNotExist(err)\<close>.
\<close>

definition notExist :: "fsnode \<Rightarrow> path \<Rightarrow> bool" where
  "notExist t p = (walk t p = Inl ENOENT)"

definition ReadDir :: "fsnode \<Rightarrow> path \<Rightarrow> oserror + (string \<times> fsnode) list" where
  "ReadDir t p =
     (case walk t p of
        Inl e \<Rightarrow> Inl e
      | Inr (Dir es) \<Rightarrow> Inr es
      | Inr LockedDir \<Rightarrow> Inl EACCES
      | Inr (File d) \<Rightarrow> Inl ENOTDIR
      | Inr LockedFile \<Rightarrow> Inl ENOTDIR)"

definition ReadFile :: "fsnode \<Rightarrow> path \<Rightarrow> oserror + string" where
  "ReadFile t p =
     (case walk t p of
        Inl e \<Rightarrow> Inl e
      | Inr (File d) \<Rightarrow> Inr d
      | Inr LockedFile \<Rightarrow> Inl EACCES
      | Inr (Dir es) \<Rightarrow> Inl EISDIR
      | Inr LockedDir \<Rightarrow> Inl EISDIR)"

text \<open>
  \<^verbatim>\<open>os.WriteFile\<close> creates the file in an existing directory or replaces the
  content of an existing regular file; it fails on a missing parent, on a directory
  and on a locked entry.
\<close>

fun WriteFile :: "fsnode \<Rightarrow> path \<Rightarrow> string \<Rightarrow> oserror + fsnode" where
  "WriteFile n [] d =
     (case n of
        File old \<Rightarrow> Inr (File d)
      | LockedFile \<Rightarrow> Inl EACCES
      | Dir es \<Rightarrow> Inl EISDIR
      | LockedDir \<Rightarrow> Inl EISDIR)"
| "WriteFile n (c # cs) d =
     (case n of
        Dir es \<Rightarrow>
          (case map_of es c of
             None \<Rightarrow> (if cs = [] then Inr (Dir (AList.update c (File d) es)) else Inl ENOENT)
           | Some n' \<Rightarrow>
               (case WriteFile n' cs d of
                  Inl e \<Rightarrow> Inl e
                | Inr n'' \<Rightarrow> Inr (Dir (AList.update c n'' es))))
      | LockedDir \<Rightarrow> Inl EACCES
      | File old \<Rightarrow> Inl ENOTDIR
      | LockedFile \<Rightarrow> Inl ENOTDIR)"

section \<open>The environment: the command-line client and the JSON library\<close>

text \<open>
  The program reaches the identity platform only by running the external program
  \<^verbatim>\<open>okta-cli-client\<close>, and reads and writes JSON through Go's
  \<^verbatim>\<open>encoding/json\<close>.  Both are outside the repository and are parameters of the
  model.  A run of the client sees the arguments, the backend's state and the file
  tree (a backup writes its files there), and either does not start, exits with a
  failure, or exits with success and some standard output.
\<close>

datatype cmdresult = StartError string | ExitError string | Exited string

datatype jvalue =
    JNull
  | JBool bool
  | JNumber int
  | JString string
  | JArray "jvalue list"
  | JObject "(string \<times> jvalue) list"

type_synonym mappings = "(string \<times> (string \<times> string) list) list"

text \<open>
  \<open>unmarshalObject\<close> is \<^verbatim>\<open>json.Unmarshal\<close> into a
  \<^verbatim>\<open>map[string]interface{}\<close>; \<open>unmarshalMappings\<close> is
  \<^verbatim>\<open>json.Unmarshal\<close> into the (existing) \<^verbatim>\<open>map[string]map[string]string\<close>
  and returns the error, if any, with the map as the decoder left it (the model has
  no nil map); \<open>marshalMappings\<close> is \<^verbatim>\<open>json.MarshalIndent\<close> of that map.
  \<open>rangeOrder\<close> is the order in which Go's \<^verbatim>\<open>range\<close> visits the keys of the
  map of custom restorers (Go leaves it unspecified).
\<close>

record 'b env =
  runClient :: "'b \<Rightarrow> fsnode \<Rightarrow> string list \<Rightarrow> cmdresult \<times> 'b \<times> fsnode"
  unmarshalObject :: "string \<Rightarrow> string + (string \<times> jvalue) list"
  unmarshalMappings :: "string \<Rightarrow> mappings \<Rightarrow> string option \<times> mappings"
  marshalMappings :: "mappings \<Rightarrow> string + string"
  userHomeDir :: "string + path"
  rangeOrder :: "string list"

text \<open>
  The state of a run: the file tree, the backend's state, the argument lists of the
  client runs so far (oldest first) and the lines the program itself has printed.
\<close>

record 'b world =
  tree :: fsnode
  backend :: 'b
  calls :: "string list list"
  printed :: "string list"

definition say :: "string \<Rightarrow> 'b world \<Rightarrow> 'b world" where
  "say line w = w\<lparr>printed := printed w @ [line]\<rparr>"

text \<open>
  \<open>start\<close> runs \<^verbatim>\<open>exec.Command("okta-cli-client", args...)\<close> to its end;
  \<open>Run\<close> is \<^verbatim>\<open>cmd.Run()\<close>, whose only result is the error.
\<close>

definition start :: "'b env \<Rightarrow> string list \<Rightarrow> 'b world \<Rightarrow> cmdresult \<times> 'b world" where
  "start e args w =
     (case runClient e (backend w) (tree w) args of
        (r, b, t) \<Rightarrow> (r, w\<lparr>tree := t, backend := b, calls := calls w @ [args]\<rparr>))"

definition Run :: "'b env \<Rightarrow> string list \<Rightarrow> 'b world \<Rightarrow> string option \<times> 'b world" where
  "Run e args w =
     (case start e args w of
        (StartError m, w') \<Rightarrow> (Some m, w')
      | (ExitError m, w') \<Rightarrow> (Some m, w')
      | (Exited stdout, w') \<Rightarrow> (None, w'))"

record Config =
  OktaDomain :: string
  ConfigFilePath :: string
  OrgName :: string

definition PrepareOktaCliArgs :: "Config \<Rightarrow> string list \<Rightarrow> string list" where
  "PrepareOktaCliArgs cfg args =
     (if ConfigFilePath cfg \<noteq> [] then [''--config'', ConfigFilePath cfg] @ args else args)"

section \<open>The identifier mapping\<close>

text \<open>
  \<^verbatim>\<open>IDMapping\<close>: the Go map of maps as an association list of association
  lists, with \<open>map_of\<close> for a lookup and \<open>AList.update\<close> for an assignment.
\<close>

record IDMapping =
  Mappings :: mappings
  FilePath :: path


definition GetNewID :: "IDMapping \<Rightarrow> string \<Rightarrow> string \<Rightarrow> string \<times> bool" where
  "GetNewID m resourceType oldID =
     (case map_of (Mappings m) resourceType of
        None \<Rightarrow> ([], False)
      | Some resourceMap \<Rightarrow>
          (case map_of resourceMap oldID of
             None \<Rightarrow> ([], False)
           | Some newID \<Rightarrow> (newID, True)))"

definition Save :: "'b env \<Rightarrow> IDMapping \<Rightarrow> 'b world \<Rightarrow> string option \<times> 'b world" where
  "Save e m w =
     (case marshalMappings e (Mappings m) of
        Inl err \<Rightarrow> (Some (''error marshaling ID mapping: '' @ err), w)
      | Inr data \<Rightarrow>
          (case WriteFile (tree w) (FilePath m) data of
             Inl oe \<Rightarrow> (Some (errorText oe), w)
           | Inr t \<Rightarrow> (None, w\<lparr>tree := t\<rparr>)))"

text \<open>
  \<^verbatim>\<open>AddMapping\<close> has no result in Go: it changes the map and calls
  \<^verbatim>\<open>m.Save()\<close> as a statement, so the model keeps the state \<open>Save\<close> leaves
  and drops the error it returns.
\<close>

definition AddMapping ::
  "'b env \<Rightarrow> string \<Rightarrow> string \<Rightarrow> string \<Rightarrow> IDMapping \<Rightarrow> 'b world \<Rightarrow> IDMapping \<times> 'b world" where
  "AddMapping e resourceType oldID newID m w =
     (let ms = (case map_of (Mappings m) resourceType of
                  None \<Rightarrow> AList.update resourceType [] (Mappings m)
                | Some resourceMap \<Rightarrow> Mappings m);
          resourceMap = (case map_of ms resourceType of None \<Rightarrow> [] | Some r \<Rightarrow> r);
          m' = m\<lparr>Mappings := AList.update resourceType (AList.update oldID newID resourceMap) ms\<rparr>
      in (m', snd (Save e m' w)))"


section \<open>Restore\<close>

text \<open>
  A Go loop \<^verbatim>\<open>for _, x := range xs\<close> is a \<open>fold\<close> of its body over the
  list; each body is a definition of its own, named after the function it belongs to.
  A line printed with \<^verbatim>\<open>%v\<close> of an operating-system error shows the cause
  only.
\<close>

definition stringField :: "(string \<times> jvalue) list \<Rightarrow> string \<Rightarrow> string option" where
  "stringField obj k = (case map_of obj k of Some (JString v) \<Rightarrow> Some v | _ \<Rightarrow> None)"


subsection \<open>Singleton resources\<close>




subsection \<open>First pass\<close>




subsection \<open>Second pass\<close>

datatype restorer = ApplicationGroupsRestorer | UserGroupsRestorer | RoleAssignmentRestorer

definition customRestorers :: "(string \<times> restorer) list" where
  "customRestorers =
     [(''applicationGroups'', ApplicationGroupsRestorer),
      (''user'', UserGroupsRestorer),
      (''roleAssignment'', RoleAssignmentRestorer)]"

definition assignmentResources :: "(string \<times> (string \<times> bool) list) list" where
  "assignmentResources =
     [(''user'', [(''listGroups'', True)]),
      (''group'', [(''listUsers'', True), (''listAssignedApplicationsFor'', True)])]"

definition isAssignmentResource :: "string \<Rightarrow> string \<Rightarrow> bool" where
  "isAssignmentResource resourceName listCommand =
     (case map_of assignmentResources resourceName of
        Some resourceCommands \<Rightarrow>
          (case map_of resourceCommands listCommand of
             Some isAssignment \<Rightarrow> isAssignment
           | None \<Rightarrow> False)
      | None \<Rightarrow> False)"

text \<open>The result is the argument list of the command, or \<open>None\<close> for Go's nil.\<close>

definition buildAssignmentCommand ::
  "Config \<Rightarrow> string \<Rightarrow> string \<Rightarrow> string \<Rightarrow> string \<Rightarrow> string list option" where
  "buildAssignmentCommand cfg resourceName sourceIDParam sourceID filePath =
     (if resourceName = ''user'' then
        (if sourceIDParam = ''userId'' then
           Some (PrepareOktaCliArgs cfg [''group'', ''addUserToGroup'',
             ''--userId'', sourceID, ''--groupId'', ''TARGET_GROUP_ID'',
             ''--assignment-file'', filePath])
         else None)
      else if resourceName = ''group'' then
        (if sourceIDParam = ''groupId'' then
           Some (PrepareOktaCliArgs cfg [''user'', ''addUserToGroup'',
             ''--groupId'', sourceID, ''--userId'', ''TARGET_USER_ID'',
             ''--assignment-file'', filePath])
         else None)
      else None)"

definition restoreSecondPassFile ::
  "'b env \<Rightarrow> Config \<Rightarrow> BackupConfigResource \<Rightarrow> string \<Rightarrow> string \<Rightarrow> path \<Rightarrow>
   string \<times> fsnode \<Rightarrow> 'b world \<Rightarrow> 'b world" where
  "restoreSecondPassFile e cfg resource sourceIDParam newSourceID subPath file w =
     (if \<not> IsDir (snd file) \<and> HasSuffix (fst file) ''.json'' then
        (let filePath = pathString (Join subPath [fst file]);
             cmd = (if isAssignmentResource (Name resource) (ListCommand resource)
                    then buildAssignmentCommand cfg (Name resource) sourceIDParam newSourceID filePath
                    else Some (PrepareOktaCliArgs cfg [Name resource, ''create'',
                           ''--'' @ sourceIDParam, newSourceID, ''--restore-from'', filePath])) in
         case cmd of
           None \<Rightarrow>
             say (''Warning: Could not determine appropriate command for '' @ Name resource @
                  '' with '' @ ListCommand resource @ '', skipping...'') w
         | Some args \<Rightarrow>
             (case Run e args w of
                (Some err, w') \<Rightarrow>
                  say (''Warning: Failed to restore '' @ Name resource @ '' for '' @
                       SourceIDDir resource @ '' '' @ newSourceID @ '': '' @ err) w'
              | (None, w') \<Rightarrow> w'))
      else w)"

definition restoreSecondPassSubdir ::
  "'b env \<Rightarrow> Config \<Rightarrow> IDMapping \<Rightarrow> BackupConfigResource \<Rightarrow> string \<Rightarrow> path \<Rightarrow>
   string \<times> fsnode \<Rightarrow> 'b world \<Rightarrow> 'b world" where
  "restoreSecondPassSubdir e cfg idMapping resource sourceIDParam resourceDir subdir w =
     (if IsDir (snd subdir) then
        (let oldSourceID = fst subdir in
         case GetNewID idMapping (SourceIDDir resource) oldSourceID of
           (newSourceID, False) \<Rightarrow>
             say (''Warning: could not find new ID for '' @ SourceIDDir resource @ '' '' @
                  oldSourceID @ '', skipping...'') w
         | (newSourceID, True) \<Rightarrow>
             (let subPath = Join resourceDir [oldSourceID] in
              case ReadDir (tree w) subPath of
                Inl oe \<Rightarrow>
                  say (''Warning: error reading directory '' @ pathString subPath @ '': '' @ errorText oe) w
              | Inr files \<Rightarrow>
                  fold (restoreSecondPassFile e cfg resource sourceIDParam newSourceID subPath) files w))
      else w)"

definition restoreSecondPassResource ::
  "'b env \<Rightarrow> Config \<Rightarrow> path \<Rightarrow> IDMapping \<Rightarrow> BackupConfigResource \<Rightarrow> 'b world \<Rightarrow> 'b world" where
  "restoreSecondPassResource e cfg inputDir idMapping resource w =
     (case map_of customRestorers (Name resource) of
        Some handler \<Rightarrow> w
      | None \<Rightarrow>
          (let sourceIDParam = getParameterFlagForResource (SourceIDDir resource);
               resourceDir = Join inputDir [ToLower (Name resource), ListCommand resource] in
           if notExist (tree w) resourceDir then
             say (''No backup found for '' @ Name resource @ ''/'' @ ListCommand resource @ '', skipping...'') w
           else
             (let w1 = say (''Restoring '' @ Name resource @ '' using '' @ ListCommand resource @ '' command...'') w in
              case ReadDir (tree w1) resourceDir of
                Inl oe \<Rightarrow>
                  say (''Warning: error reading directory '' @ pathString resourceDir @ '': '' @ errorText oe) w1
              | Inr subdirs \<Rightarrow>
                  fold (restoreSecondPassSubdir e cfg idMapping resource sourceIDParam resourceDir) subdirs w1)))"


subsection \<open>The custom restorers\<close>

definition UserGroupsFile ::
  "'b env \<Rightarrow> Config \<Rightarrow> IDMapping \<Rightarrow> string \<Rightarrow> path \<Rightarrow> string \<times> fsnode \<Rightarrow> 'b world \<Rightarrow> 'b world" where
  "UserGroupsFile e cfg idMapping newUserID userPath file w =
     (if \<not> IsDir (snd file) \<and> HasSuffix (fst file) ''.json'' then
        (let filePath = Join userPath [fst file] in
         case ReadFile (tree w) filePath of
           Inl oe \<Rightarrow>
             say (''Warning: error reading file '' @ pathString filePath @ '': '' @ errorText oe) w
         | Inr data \<Rightarrow>
             (case unmarshalObject e data of
                Inl err \<Rightarrow>
                  say (''Warning: error parsing JSON in '' @ pathString filePath @ '': '' @ err) w
              | Inr group' \<Rightarrow>
                  (case stringField group' ''id'' of
                     None \<Rightarrow> say (''Warning: missing id in '' @ pathString filePath) w
                   | Some oldGroupID \<Rightarrow>
                       (case GetNewID idMapping ''group'' oldGroupID of
                          (newGroupID, False) \<Rightarrow>
                            say (''Warning: could not find new ID for group '' @ oldGroupID) w
                        | (newGroupID, True) \<Rightarrow>
                            (let w1 = say (''Adding user '' @ newUserID @ '' to group '' @ newGroupID @ ''...'') w in
                             case Run e (PrepareOktaCliArgs cfg [''group'', ''addUserToGroup'',
                                    ''--groupId'', newGroupID, ''--userId'', newUserID]) w1 of
                               (Some err, w2) \<Rightarrow>
                                 say (''Warning: failed to add user '' @ newUserID @ '' to group '' @
                                      newGroupID @ '': '' @ err) w2
                             | (None, w2) \<Rightarrow> w2)))))
      else w)"

definition UserGroupsDir ::
  "'b env \<Rightarrow> Config \<Rightarrow> IDMapping \<Rightarrow> path \<Rightarrow> string \<times> fsnode \<Rightarrow> 'b world \<Rightarrow> 'b world" where
  "UserGroupsDir e cfg idMapping userGroupsDir userDir w =
     (if IsDir (snd userDir) then
        (let oldUserID = fst userDir in
         case GetNewID idMapping ''user'' oldUserID of
           (newUserID, False) \<Rightarrow>
             say (''Warning: could not find new ID for user '' @ oldUserID @
                  '', skipping group assignments...'') w
         | (newUserID, True) \<Rightarrow>
             (let userPath = Join userGroupsDir [oldUserID] in
              case ReadDir (tree w) userPath of
                Inl oe \<Rightarrow>
                  say (''Warning: error reading directory '' @ pathString userPath @ '': '' @ errorText oe) w
              | Inr groupFiles \<Rightarrow>
                  fold (UserGroupsFile e cfg idMapping newUserID userPath) groupFiles w))
      else w)"

definition UserGroupsRestore ::
  "'b env \<Rightarrow> Config \<Rightarrow> IDMapping \<Rightarrow> path \<Rightarrow> 'b world \<Rightarrow> string option \<times> 'b world" where
  "UserGroupsRestore e cfg idMapping inputDir w =
     (let userGroupsDir = Join inputDir [''user'', ''listGroups''] in
      if notExist (tree w) userGroupsDir then (None, w)
      else
        (case ReadDir (tree w) userGroupsDir of
           Inl oe \<Rightarrow>
             (Some (''error reading directory '' @ pathString userGroupsDir @ '': '' @ errorText oe), w)
         | Inr userDirs \<Rightarrow>
             (None, fold (UserGroupsDir e cfg idMapping userGroupsDir) userDirs w)))"

definition RoleAssignmentFile ::
  "'b env \<Rightarrow> Config \<Rightarrow> string \<Rightarrow> path \<Rightarrow> string \<times> fsnode \<Rightarrow> 'b world \<Rightarrow> 'b world" where
  "RoleAssignmentFile e cfg newUserID userPath file w =
     (if \<not> IsDir (snd file) \<and> HasSuffix (fst file) ''.json'' then
        (let filePath = Join userPath [fst file] in
         case ReadFile (tree w) filePath of
           Inl oe \<Rightarrow>
             say (''Warning: error reading file '' @ pathString filePath @ '': '' @ errorText oe) w
         | Inr data \<Rightarrow>
             (case unmarshalObject e data of
                Inl err \<Rightarrow>
                  say (''Warning: error parsing JSON in '' @ pathString filePath @ '': '' @ err) w
              | Inr role \<Rightarrow>
                  (case stringField role ''type'' of
                     None \<Rightarrow> say (''Warning: missing role type in '' @ pathString filePath) w
                   | Some roleType \<Rightarrow>
                       (let w1 = say (''Assigning role '' @ roleType @ '' to user '' @ newUserID @ ''...'') w in
                        case Run e (PrepareOktaCliArgs cfg [''role'', ''assignRoleToUser'',
                               ''--userId'', newUserID, ''--type'', roleType]) w1 of
                          (Some err, w2) \<Rightarrow>
                            say (''Warning: failed to assign role '' @ roleType @ '' to user '' @
                                 newUserID @ '': '' @ err) w2
                        | (None, w2) \<Rightarrow> w2))))
      else w)"

definition RoleAssignmentDir ::
  "'b env \<Rightarrow> Config \<Rightarrow> IDMapping \<Rightarrow> path \<Rightarrow> string \<times> fsnode \<Rightarrow> 'b world \<Rightarrow> 'b world" where
  "RoleAssignmentDir e cfg idMapping roleAssignmentsDir userDir w =
     (if IsDir (snd userDir) then
        (let oldUserID = fst userDir in
         case GetNewID idMapping ''user'' oldUserID of
           (newUserID, False) \<Rightarrow>
             say (''Warning: could not find new ID for user '' @ oldUserID @
                  '', skipping role assignments...'') w
         | (newUserID, True) \<Rightarrow>
             (let userPath = Join roleAssignmentsDir [oldUserID] in
              case ReadDir (tree w) userPath of
                Inl oe \<Rightarrow>
                  say (''Warning: error reading directory '' @ pathString userPath @ '': '' @ errorText oe) w
              | Inr roleFiles \<Rightarrow>
                  fold (RoleAssignmentFile e cfg newUserID userPath) roleFiles w))
      else w)"

definition RoleAssignmentRestore ::
  "'b env \<Rightarrow> Config \<Rightarrow> IDMapping \<Rightarrow> path \<Rightarrow> 'b world \<Rightarrow> string option \<times> 'b world" where
  "RoleAssignmentRestore e cfg idMapping inputDir w =
     (let roleAssignmentsDir = Join inputDir [''roleassignment'', ''listAssignedRolesForUser''] in
      if notExist (tree w) roleAssignmentsDir then (None, w)
      else
        (case ReadDir (tree w) roleAssignmentsDir of
           Inl oe \<Rightarrow>
             (Some (''error reading directory '' @ pathString roleAssignmentsDir @ '': '' @ errorText oe), w)
         | Inr userDirs \<Rightarrow>
             (None, fold (RoleAssignmentDir e cfg idMapping roleAssignmentsDir) userDirs w)))"

definition ApplicationGroupsFile ::
  "'b env \<Rightarrow> Config \<Rightarrow> IDMapping \<Rightarrow> path \<Rightarrow> string \<times> fsnode \<Rightarrow> 'b world \<Rightarrow> 'b world" where
  "ApplicationGroupsFile e cfg idMapping assignmentsDir file w =
     (if \<not> IsDir (snd file) \<and> HasSuffix (fst file) ''.json'' then
        (let filePath = Join assignmentsDir [fst file] in
         case ReadFile (tree w) filePath of
           Inl oe \<Rightarrow>
             say (''Warning: error reading file '' @ pathString filePath @ '': '' @ errorText oe) w
         | Inr data \<Rightarrow>
             (case unmarshalObject e data of
                Inl err \<Rightarrow>
                  say (''Warning: error parsing JSON in '' @ pathString filePath @ '': '' @ err) w
              | Inr assignment \<Rightarrow>
                  (case stringField assignment ''appId'' of
                     None \<Rightarrow> say (''Warning: missing appId in '' @ pathString filePath) w
                   | Some oldAppID \<Rightarrow>
                       (case stringField assignment ''id'' of
                          None \<Rightarrow> say (''Warning: missing id in '' @ pathString filePath) w
                        | Some oldGroupID \<Rightarrow>
                            (case GetNewID idMapping ''application'' oldAppID of
                               (newAppID, False) \<Rightarrow>
                                 say (''Warning: could not find new ID for application '' @ oldAppID) w
                             | (newAppID, True) \<Rightarrow>
                                 (case GetNewID idMapping ''group'' oldGroupID of
                                    (newGroupID, False) \<Rightarrow>
                                      say (''Warning: could not find new ID for group '' @ oldGroupID) w
                                  | (newGroupID, True) \<Rightarrow>
                                      (let w1 = say (''Assigning group '' @ newGroupID @
                                                     '' to application '' @ newAppID @ ''...'') w in
                                       case Run e (PrepareOktaCliArgs cfg
                                              [''applicationGroups'', ''assignGroupToApplication'',
                                               ''--appId'', newAppID, ''--groupId'', newGroupID,
                                               ''--restore-from'', pathString filePath]) w1 of
                                         (None, w2) \<Rightarrow> w2
                                       | (Some err, w2) \<Rightarrow>
                                           (let w3 = say ''Trying alternative assignment method...'' w2 in
                                            case Run e (PrepareOktaCliArgs cfg
                                                   [''applicationGroups'', ''assignGroupToApplication'',
                                                    ''--appId'', newAppID, ''--groupId'', newGroupID,
                                                    ''--data'', ''{}'']) w3 of
                                              (Some err', w4) \<Rightarrow>
                                                say (''Warning: failed to assign group '' @ newGroupID @
                                                     '' to application '' @ newAppID @ '': '' @ err') w4
                                            | (None, w4) \<Rightarrow> w4))))))))
      else w)"

definition ApplicationGroupsRestore ::
  "'b env \<Rightarrow> Config \<Rightarrow> IDMapping \<Rightarrow> path \<Rightarrow> 'b world \<Rightarrow> string option \<times> 'b world" where
  "ApplicationGroupsRestore e cfg idMapping inputDir w =
     (let assignmentsDir = Join inputDir [''applicationgroups'', ''listApplicationGroupAssignments''] in
      if notExist (tree w) assignmentsDir then (None, w)
      else
        (case ReadDir (tree w) assignmentsDir of
           Inl oe \<Rightarrow>
             (Some (''error reading directory '' @ pathString assignmentsDir @ '': '' @ errorText oe), w)
         | Inr files \<Rightarrow>
             (let w1 = say (''Found '' @ showNat (length files) @
                            '' application group assignments to restore'') w in
              (None, fold (ApplicationGroupsFile e cfg idMapping assignmentsDir) files w1))))"

fun Restore ::
  "restorer \<Rightarrow> 'b env \<Rightarrow> Config \<Rightarrow> IDMapping \<Rightarrow> path \<Rightarrow> 'b world \<Rightarrow> string option \<times> 'b world" where
  "Restore ApplicationGroupsRestorer = ApplicationGroupsRestore"
| "Restore UserGroupsRestorer = UserGroupsRestore"
| "Restore RoleAssignmentRestorer = RoleAssignmentRestore"

subsection \<open>The restore run\<close>




section \<open>Backup\<close>

definition getResourceIDsFromDirectory :: "fsnode \<Rightarrow> path \<Rightarrow> string + string list" where
  "getResourceIDsFromDirectory t dirPath =
     (case ReadDir t dirPath of
        Inl oe \<Rightarrow> Inl (''failed to read directory: '' @ errorText oe)
      | Inr entries \<Rightarrow>
          Inr (map (\<lambda>entry. TrimSuffix (fst entry) ''.json'')
                 (filter (\<lambda>entry. IsRegular (snd entry) \<and> HasSuffix (fst entry) ''.json'') entries)))"

definition backupSecondPassID ::
  "'b env \<Rightarrow> Config \<Rightarrow> path \<Rightarrow> BackupConfigResource \<Rightarrow> string \<Rightarrow> string \<Rightarrow> 'b world \<Rightarrow> 'b world" where
  "backupSecondPassID e cfg outputDir resource paramFlag ident w =
     (let w1 = say (''Backing up '' @ Name resource @ '' for '' @ SourceIDDir resource @ '' ID '' @
                    ident @ '' using '' @ ListCommand resource @ '' command...'') w in
      case Run e (PrepareOktaCliArgs cfg [Name resource, ListCommand resource,
             ''--'' @ paramFlag, ident, ''--batch-backup'', ''--backup-dir'', pathString outputDir]) w1 of
        (Some err, w2) \<Rightarrow>
          say (''Warning: Failed to execute '' @ Name resource @ '' '' @ ListCommand resource @
               '' backup for ID '' @ ident @ '': '' @ err) w2
      | (None, w2) \<Rightarrow> w2)"

definition backupSecondPassResource ::
  "'b env \<Rightarrow> Config \<Rightarrow> path \<Rightarrow> BackupConfigResource \<Rightarrow> 'b world \<Rightarrow> 'b world" where
  "backupSecondPassResource e cfg outputDir resource w =
     (let sourceDir = Join outputDir [SourceIDDir resource, ''lists''] in
      if notExist (tree w) sourceDir then
        say (''Warning: Source directory '' @ pathString sourceDir @ '' not found for '' @
             Name resource @ '', skipping...'') w
      else
        (case getResourceIDsFromDirectory (tree w) sourceDir of
           Inl err \<Rightarrow>
             say (''Warning: Failed to get IDs from '' @ pathString sourceDir @ '': '' @ err) w
         | Inr ids \<Rightarrow>
             if length ids = 0 then
               say (''No IDs found in '' @ pathString sourceDir @ '' for '' @ Name resource @ '', skipping...'') w
             else
               (let w1 = say (''Found '' @ showNat (length ids) @ '' IDs for '' @ Name resource @
                              '' in '' @ pathString sourceDir) w;
                    paramFlag = getParameterFlagForResource (Name resource) in
                fold (backupSecondPassID e cfg outputDir resource paramFlag) ids w1)))"

definition backupSecondPassResources ::
  "'b env \<Rightarrow> Config \<Rightarrow> BackupConfig \<Rightarrow> path \<Rightarrow> 'b world \<Rightarrow> string option \<times> 'b world" where
  "backupSecondPassResources e cfg config outputDir w =
     (None, fold (backupSecondPassResource e cfg outputDir) (SecondPassResources config) w)"

definition backupFirstPassResource ::
  "'b env \<Rightarrow> Config \<Rightarrow> path \<Rightarrow> BackupConfigResource \<Rightarrow> 'b world \<Rightarrow> 'b world" where
  "backupFirstPassResource e cfg outputDir resource w =
     (let w1 = say (''Backing up '' @ Name resource @ '' using '' @ ListCommand resource @ '' command...'') w in
      case Run e (PrepareOktaCliArgs cfg [Name resource, ListCommand resource,
             ''--batch-backup'', ''--backup-dir'', pathString outputDir]) w1 of
        (Some err, w2) \<Rightarrow>
          say (''Warning: Failed to execute '' @ Name resource @ '' '' @ ListCommand resource @
               '' backup: '' @ err) w2
      | (None, w2) \<Rightarrow> w2)"

definition backupSingletonResource ::
  "'b env \<Rightarrow> Config \<Rightarrow> path \<Rightarrow> BackupConfigResource \<Rightarrow> 'b world \<Rightarrow> 'b world" where
  "backupSingletonResource e cfg outputDir resource w =
     (let w1 = say (''Backing up '' @ Name resource @ '' using '' @ GetCommand resource @ '' command...'') w in
      case Run e (PrepareOktaCliArgs cfg [Name resource, GetCommand resource,
             ''--backup-dir'', pathString outputDir]) w1 of
        (Some err, w2) \<Rightarrow>
          say (''Warning: Failed to execute '' @ Name resource @ '' '' @ GetCommand resource @
               '' backup: '' @ err) w2
      | (None, w2) \<Rightarrow> w2)"

text \<open>
  \<^verbatim>\<open>PerformBackup\<close>.  The empty output directory is the empty path; the home
  directory comes from the environment and its failure is the only error the
  function returns.
\<close>

definition backupPasses :: "'b env \<Rightarrow> Config \<Rightarrow> path \<Rightarrow> 'b world \<Rightarrow> 'b world" where
  "backupPasses e cfg outputDir w =
     (let backupConfig = GetBackupConfig;
          w1 = say ''Backing up first pass resources...'' w;
          w2 = fold (backupFirstPassResource e cfg outputDir) (FirstPassResources backupConfig) w1;
          w3 = say ''Backing up singleton resources...'' w2;
          w4 = fold (backupSingletonResource e cfg outputDir) (SingletonResources backupConfig) w3;
          w5 = say ''Backing up second pass resources...'' w4;
          (err6, w6) = backupSecondPassResources e cfg backupConfig outputDir w5;
          w7 = (case err6 of
                  Some err \<Rightarrow> say (''Warning: Error during second pass resources backup: '' @ err) w6
                | None \<Rightarrow> w6)
      in say ''Backup completed successfully!'' w7)"

definition PerformBackup :: "'b env \<Rightarrow> Config \<Rightarrow> path \<Rightarrow> 'b world \<Rightarrow> string option \<times> 'b world" where
  "PerformBackup e cfg outputDir w =
     (if outputDir = [] then
        (case userHomeDir e of
           Inl err \<Rightarrow> (Some (''error getting user home directory: '' @ err), w)
         | Inr home \<Rightarrow> (None, backupPasses e cfg (Join home [''.okta'', OrgName cfg]) w))
      else (None, backupPasses e cfg outputDir w))"

section \<open>Vocabulary of the properties\<close>











section \<open>Test doubles\<close>

text \<open>
  Environments for the closed examples.  \<open>fakeMarshalMappings\<close> writes a mapping
  as one line of JSON.  \<open>okEnv\<close> is a client whose every run succeeds with no
  output and changes nothing; its JSON decoder rejects every text.
\<close>

fun joinWith :: "string \<Rightarrow> string list \<Rightarrow> string" where
  "joinWith sep [] = []"
| "joinWith sep [x] = x"
| "joinWith sep (x # xs) = x @ sep @ joinWith sep xs"

definition quoted :: "string \<Rightarrow> string" where
  "quoted s = [CHR 0x22] @ s @ [CHR 0x22]"

definition fakeMarshalMappings :: "mappings \<Rightarrow> string + string" where
  "fakeMarshalMappings ms =
     Inr (''{'' @ joinWith '','' (map (\<lambda>tm. quoted (fst tm) @ '':{'' @
              joinWith '','' (map (\<lambda>kv. quoted (fst kv) @ '':'' @ quoted (snd kv)) (snd tm)) @ ''}'') ms)
          @ ''}'')"


definition noConfig :: Config where
  "noConfig = \<lparr>OktaDomain = ''dev-1.okta.com'', ConfigFilePath = [], OrgName = ''dev-1''\<rparr>"




text \<open>
  A JSON decoder for the few documents of the examples, a client whose every run
  fails, and a mapping and backups for the custom restorers.
\<close>

definition fakeDocs :: "(string \<times> (string \<times> jvalue) list) list" where
  \<open>fakeDocs =
     [(''{"id":"g1","appId":"a1"}'', [(''id'', JString ''g1''), (''appId'', JString ''a1'')]),
      (''{"type":"SUPER_ADMIN"}'', [(''type'', JString ''SUPER_ADMIN'')])]\<close>

definition fakeUnmarshalObject :: "string \<Rightarrow> string + (string \<times> jvalue) list" where
  \<open>fakeUnmarshalObject data =
     (if 9 \<le> length data \<and> take 7 data = ''{"id":"'' \<and> drop (length data - 2) data = ''"}''
        \<and> CHR 0x22 \<notin> set (take (length data - 9) (drop 7 data))
      then Inr [(''id'', JString (take (length data - 9) (drop 7 data)))]
      else (case map_of fakeDocs data of
              Some obj \<Rightarrow> Inr obj
            | None \<Rightarrow> Inl ''invalid character''))\<close>

definition failEnv :: "unit env" where
  "failEnv =
     \<lparr>runClient = (\<lambda>b t args. (ExitError ''exit status 1'', b, t)),
      unmarshalObject = fakeUnmarshalObject,
      unmarshalMappings = (\<lambda>data ms. (Some ''unexpected end of JSON input'', ms)),
      marshalMappings = fakeMarshalMappings,
      userHomeDir = Inr [''home''],
      rangeOrder = [''applicationGroups'', ''user'', ''roleAssignment'']\<rparr>"

definition someMapping :: IDMapping where
  "someMapping =
     \<lparr>Mappings = [(''user'', [(''u1'', ''newU1'')]), (''group'', [(''g1'', ''newG1'')]),
                  (''application'', [(''a1'', ''newA1'')])],
      FilePath = [''backup'', ''id_mapping.json'']\<rparr>"

definition relationsWorld :: "unit world" where
  \<open>relationsWorld =
     \<lparr>tree = Dir [(''backup'', Dir
         [(''user'', Dir
            [(''listGroups'', Dir [(''u1'', Dir [(''g1.json'', File ''{"id":"g1"}'')])]),
             (''listAppLinks'', Dir [(''u1'', Dir [(''link1.json'', File ''{"id":"link1"}'')])])]),
          (''roleassignment'', Dir
            [(''listAssignedRolesForUser'', Dir [(''u1'', Dir [(''r1.json'', File ''{"type":"SUPER_ADMIN"}'')])])]),
          (''applicationgroups'', Dir
            [(''listApplicationGroupAssignments'', Dir [(''g1.json'', File ''{"id":"g1","appId":"a1"}'')])]),
          (''userfactor'', Dir
            [(''listFactors'', Dir [(''u9'', Dir [(''f1.json'', File ''{"id":"f1"}'')])])])])],
      backend = (), calls = [], printed = []\<rparr>\<close>

definition appLinksWorld :: "unit world" where
  \<open>appLinksWorld =
     \<lparr>tree = Dir [(''backup'', Dir
         [(''user'', Dir
            [(''lists'', Dir [(''u1.json'', File ''{"id":"u1"}'')]),
             (''listAppLinks'', Dir [(''u1'', Dir [(''link1.json'', File ''{"id":"link1"}'')])])])])],
      backend = (), calls = [], printed = []\<rparr>\<close>











section \<open>Properties of the catalog\<close>

lemmas catalog_defs = GetBackupConfig_def firstPass_def secondPass_def singleton_def

text \<open>
  C3, as the code has it.  Every dependent descriptor of the catalog whose source
  type is neither \<^verbatim>\<open>policy\<close> nor \<^verbatim>\<open>authorizationServerPolicy\<close> names
  a first-pass descriptor.  The catalog is returned without any validation, and a
  source type may also be the name of second-pass descriptors (\<^verbatim>\<open>group\<close>).
\<close>

theorem catalog_sourceType_resolved:
  "(\<forall>d \<in> set (SecondPassResources GetBackupConfig).
      SourceIDDir d \<noteq> ''policy'' \<and> SourceIDDir d \<noteq> ''authorizationServerPolicy'' \<longrightarrow>
      SourceIDDir d \<in> set (map Name (FirstPassResources GetBackupConfig)))
   \<and> SourceIDDir (secondPass ''group'' ''listUsers'' ''group'')
       \<in> set (map Name (SecondPassResources GetBackupConfig))"
  by (simp add: catalog_defs)

theorem catalog_sourceType_resolved_witness:
  "secondPass ''userFactor'' ''listFactors'' ''user'' \<in> set (SecondPassResources GetBackupConfig)
   \<and> SourceIDDir (secondPass ''userFactor'' ''listFactors'' ''user'')
       \<in> set (map Name (FirstPassResources GetBackupConfig))"
proof -
  have m: "secondPass ''userFactor'' ''listFactors'' ''user'' \<in> set (SecondPassResources GetBackupConfig)"
    by (simp add: catalog_defs)
  have s: "SourceIDDir (secondPass ''userFactor'' ''listFactors'' ''user'') \<noteq> ''policy''
           \<and> SourceIDDir (secondPass ''userFactor'' ''listFactors'' ''user'') \<noteq> ''authorizationServerPolicy''"
    by (simp add: secondPass_def)
  from catalog_sourceType_resolved m s show ?thesis by blast
qed

text \<open>
  C3, as the specification states it, fails on the catalog: the descriptor
  \<^verbatim>\<open>policy/listRules\<close> is a dependent descriptor whose source type
  \<^verbatim>\<open>policy\<close> is the name of no first-pass descriptor.
\<close>

theorem catalog_policy_unresolved:
  "secondPass ''policy'' ''listRules'' ''policy'' \<in> set (SecondPassResources GetBackupConfig)
   \<and> SourceIDDir (secondPass ''policy'' ''listRules'' ''policy'')
        \<notin> set (map Name (FirstPassResources GetBackupConfig))"
  by (simp add: catalog_defs)

text \<open>
  C10 at the descriptor \<^verbatim>\<open>authorizationServerRules\<close>, which the generic second
  pass of restore handles (it has no custom restorer): backup computes the flag from
  the descriptor's name and gets \<^verbatim>\<open>policyId\<close>, restore computes it from the
  source type \<^verbatim>\<open>authorizationServerPolicy\<close>, which is not a key of the table, and
  gets the fallback \<^verbatim>\<open>id\<close>.
\<close>

theorem authorizationServerRules_flags_differ:
  "secondPass ''authorizationServerRules'' ''listAuthorizationServerPolicyRules''
      ''authorizationServerPolicy'' \<in> set (SecondPassResources GetBackupConfig)
   \<and> map_of customRestorers ''authorizationServerRules'' = None
   \<and> getParameterFlagForResource
        (Name (secondPass ''authorizationServerRules'' ''listAuthorizationServerPolicyRules''
           ''authorizationServerPolicy'')) = ''policyId''
   \<and> getParameterFlagForResource
        (SourceIDDir (secondPass ''authorizationServerRules'' ''listAuthorizationServerPolicyRules''
           ''authorizationServerPolicy'')) = ''id''"
  by (simp add: catalog_defs customRestorers_def getParameterFlagForResource_def paramMap_def)

text \<open>Every other dependent descriptor of the catalog gets the same flag both ways.\<close>

lemma other_descriptors_flags_agree:
  "\<forall>d \<in> set (SecondPassResources GetBackupConfig).
     Name d \<noteq> ''authorizationServerRules'' \<longrightarrow>
     getParameterFlagForResource (Name d) = getParameterFlagForResource (SourceIDDir d)"
  by (simp add: catalog_defs getParameterFlagForResource_def paramMap_def)

section \<open>Backup: the order of the passes\<close>

lemma calls_say [simp]: "calls (say line w) = calls w"
  by (simp add: say_def)

lemma tree_say [simp]: "tree (say line w) = tree w"
  by (simp add: say_def)

lemma backend_say [simp]: "backend (say line w) = backend w"
  by (simp add: say_def)

lemma calls_start: "calls (snd (start e args w)) = calls w @ [args]"
  by (simp add: start_def split: prod.splits)

lemma calls_Run: "calls (snd (Run e args w)) = calls w @ [args]"
proof -
  have "snd (Run e args w) = snd (start e args w)"
    by (simp add: Run_def split: prod.splits cmdresult.splits)
  then show ?thesis by (simp add: calls_start)
qed













text \<open>When the home directory cannot be found the run returns the error and does nothing.\<close>

lemma PerformBackup_no_home:
  "userHomeDir e = Inl err \<Longrightarrow>
   PerformBackup e cfg [] w = (Some (''error getting user home directory: '' @ err), w)"
  by (simp add: PerformBackup_def)

section \<open>The identifier mapping store\<close>

lemma printed_say [simp]: "printed (say line w) = printed w @ [line]"
  by (simp add: say_def)














section \<open>Restore: unresolved identifiers and the custom restorers\<close>

lemma Run_calls: "Run e args w = (r, w') \<Longrightarrow> calls w' = calls w @ [args]"
  using calls_Run [of e args w] by simp

lemma Run_printed: "Run e args w = (r, w') \<Longrightarrow> printed w' = printed w"
  by (auto simp: Run_def start_def split: prod.splits cmdresult.splits)

text \<open>
  C2.  In the generic second pass, a subdirectory whose name has no entry in the
  mapping under the descriptor's source type is skipped: the loop body prints the
  warning and does nothing else, so no client run is made for any record in it.
\<close>

theorem restoreSecondPassSubdir_unmapped:
  assumes "IsDir (snd subdir)"
    and "\<not> snd (GetNewID idMapping (SourceIDDir resource) (fst subdir))"
  shows "restoreSecondPassSubdir e cfg idMapping resource sourceIDParam resourceDir subdir w =
           say (''Warning: could not find new ID for '' @ SourceIDDir resource @ '' '' @
                fst subdir @ '', skipping...'') w
         \<and> calls (restoreSecondPassSubdir e cfg idMapping resource sourceIDParam resourceDir subdir w)
             = calls w"
  using assms by (auto simp: restoreSecondPassSubdir_def Let_def split: prod.splits bool.splits)

theorem restoreSecondPassSubdir_unmapped_witness:
  \<open>calls (restoreSecondPassSubdir failEnv noConfig someMapping
            (secondPass ''userFactor'' ''listFactors'' ''user'') ''userId''
            [''backup'', ''userfactor'', ''listFactors'']
            (''u9'', Dir [(''f1.json'', File ''{"id":"f1"}'')]) relationsWorld) = []
   \<and> printed (restoreSecondPassSubdir failEnv noConfig someMapping
            (secondPass ''userFactor'' ''listFactors'' ''user'') ''userId''
            [''backup'', ''userfactor'', ''listFactors'']
            (''u9'', Dir [(''f1.json'', File ''{"id":"f1"}'')]) relationsWorld)
       = [''Warning: could not find new ID for user u9, skipping...'']\<close>
proof -
  let ?subdir = \<open>(''u9'', Dir [(''f1.json'', File ''{"id":"f1"}'')])\<close>
  have a: "IsDir (snd ?subdir)" by simp
  have b: "\<not> snd (GetNewID someMapping (SourceIDDir (secondPass ''userFactor'' ''listFactors'' ''user''))
                   (fst ?subdir))"
    by (simp add: GetNewID_def someMapping_def secondPass_def)
  show ?thesis
    using restoreSecondPassSubdir_unmapped [OF a b, of failEnv noConfig "''userId''"
        "[''backup'', ''userfactor'', ''listFactors'']" relationsWorld]
    by (simp add: relationsWorld_def secondPass_def)
qed

text \<open>
  C6.  For an application-group assignment record that is read and decoded and has
  both identifiers, the handler looks both up.  When both lookups succeed it makes
  the assignment call (and, if that fails, the alternative call); when either lookup
  fails it makes no call and prints the warning for the identifier it did not find.
\<close>

theorem ApplicationGroupsFile_both_lookups:
  assumes "\<not> IsDir (snd entry)" and "HasSuffix (fst entry) ''.json''"
    and "ReadFile (tree w) (Join assignmentsDir [fst entry]) = Inr data"
    and "unmarshalObject e data = Inr assignment"
    and "stringField assignment ''appId'' = Some oldAppID"
    and "stringField assignment ''id'' = Some oldGroupID"
    and "w' = ApplicationGroupsFile e cfg idMapping assignmentsDir entry w"
    and "assign = [''applicationGroups'', ''assignGroupToApplication'',
                   ''--appId'', fst (GetNewID idMapping ''application'' oldAppID),
                   ''--groupId'', fst (GetNewID idMapping ''group'' oldGroupID)]"
  shows "if snd (GetNewID idMapping ''application'' oldAppID)
            \<and> snd (GetNewID idMapping ''group'' oldGroupID)
         then calls w' = calls w @ [PrepareOktaCliArgs cfg
                  (assign @ [''--restore-from'', pathString (Join assignmentsDir [fst entry])])]
            \<or> calls w' = calls w @ [PrepareOktaCliArgs cfg
                  (assign @ [''--restore-from'', pathString (Join assignmentsDir [fst entry])]),
                PrepareOktaCliArgs cfg (assign @ [''--data'', ''{}''])]
         else calls w' = calls w
            \<and> (printed w' = printed w @ [''Warning: could not find new ID for application '' @ oldAppID]
               \<or> printed w' = printed w @ [''Warning: could not find new ID for group '' @ oldGroupID])"
  using assms
  by (auto simp: ApplicationGroupsFile_def Let_def
      split: prod.splits bool.splits option.splits dest!: Run_calls)

theorem ApplicationGroupsFile_both_lookups_witness:
  \<open>calls (ApplicationGroupsFile failEnv noConfig someMapping
            [''backup'', ''applicationgroups'', ''listApplicationGroupAssignments'']
            (''g1.json'', File ''{"id":"g1","appId":"a1"}'') relationsWorld)
     = [[''applicationGroups'', ''assignGroupToApplication'', ''--appId'', ''newA1'', ''--groupId'', ''newG1'',
         ''--restore-from'', ''backup/applicationgroups/listApplicationGroupAssignments/g1.json'']]
   \<or> calls (ApplicationGroupsFile failEnv noConfig someMapping
            [''backup'', ''applicationgroups'', ''listApplicationGroupAssignments'']
            (''g1.json'', File ''{"id":"g1","appId":"a1"}'') relationsWorld)
     = [[''applicationGroups'', ''assignGroupToApplication'', ''--appId'', ''newA1'', ''--groupId'', ''newG1'',
         ''--restore-from'', ''backup/applicationgroups/listApplicationGroupAssignments/g1.json''],
        [''applicationGroups'', ''assignGroupToApplication'', ''--appId'', ''newA1'', ''--groupId'', ''newG1'',
         ''--data'', ''{}'']]\<close>
proof -
  let ?file = \<open>(''g1.json'', File ''{"id":"g1","appId":"a1"}'')\<close>
  let ?dir = "[''backup'', ''applicationgroups'', ''listApplicationGroupAssignments'']"
  let ?obj = "[(''id'', JString ''g1''), (''appId'', JString ''a1'')]"
  have a: "\<not> IsDir (snd ?file)" by simp
  have b: "HasSuffix (fst ?file) ''.json''" by (simp add: HasSuffix_def)
  have c: \<open>ReadFile (tree relationsWorld) (Join ?dir [fst ?file]) = Inr ''{"id":"g1","appId":"a1"}''\<close>
    by (simp add: ReadFile_def relationsWorld_def Join_def)
  have d: \<open>unmarshalObject failEnv ''{"id":"g1","appId":"a1"}'' = Inr ?obj\<close>
    by (simp add: failEnv_def fakeUnmarshalObject_def fakeDocs_def)
  have f: "stringField ?obj ''appId'' = Some ''a1''" by (simp add: stringField_def)
  have g: "stringField ?obj ''id'' = Some ''g1''" by (simp add: stringField_def)
  show ?thesis
    using ApplicationGroupsFile_both_lookups [OF a b c d f g refl refl, where cfg = noConfig
        and idMapping = someMapping]
    by (simp add: GetNewID_def someMapping_def PrepareOktaCliArgs_def noConfig_def Join_def
        relationsWorld_def)
qed

text \<open>
  Whatever the record, the handler makes a call for it only if the record is read and
  decoded, has both identifiers, and both lookups succeed.
\<close>

lemma ApplicationGroupsFile_calls_only_if_resolved:
  assumes "calls (ApplicationGroupsFile e cfg idMapping assignmentsDir entry w) \<noteq> calls w"
  shows "\<exists>data assignment oldAppID oldGroupID.
           ReadFile (tree w) (Join assignmentsDir [fst entry]) = Inr data
         \<and> unmarshalObject e data = Inr assignment
         \<and> stringField assignment ''appId'' = Some oldAppID
         \<and> stringField assignment ''id'' = Some oldGroupID
         \<and> snd (GetNewID idMapping ''application'' oldAppID)
         \<and> snd (GetNewID idMapping ''group'' oldGroupID)"
  using assms
  by (auto simp: ApplicationGroupsFile_def Let_def
      split: if_splits sum.splits option.splits prod.splits bool.splits)

text \<open>A handler returns an error only before it has handled any record.\<close>

lemma Restore_error_before_records:
  "fst (Restore h e cfg idMapping inputDir w) \<noteq> None \<Longrightarrow>
   snd (Restore h e cfg idMapping inputDir w) = w"
  by (cases h)
     (auto simp: ApplicationGroupsRestore_def UserGroupsRestore_def RoleAssignmentRestore_def Let_def
       split: if_splits sum.splits)

text \<open>
  C7, as the code has it.  Only the application-groups handler retries: when its
  primary call fails it makes the same call again with \<^verbatim>\<open>--data {}\<close> in place
  of the record file.  The user-groups handler and the role-assignment handler make
  exactly one call for a record, whether or not it fails.  In all three a failing
  call is not an error of the handler.
\<close>

theorem association_handlers_on_failure:
  "(\<not> IsDir (snd entry) \<and> HasSuffix (fst entry) ''.json''
      \<and> ReadFile (tree w) (Join assignmentsDir [fst entry]) = Inr data
      \<and> unmarshalObject e data = Inr assignment
      \<and> stringField assignment ''appId'' = Some oldAppID
      \<and> stringField assignment ''id'' = Some oldGroupID
      \<and> GetNewID idMapping ''application'' oldAppID = (newAppID, True)
      \<and> GetNewID idMapping ''group'' oldGroupID = (newGroupID, True)
      \<and> fst (Run e (PrepareOktaCliArgs cfg [''applicationGroups'', ''assignGroupToApplication'',
                  ''--appId'', newAppID, ''--groupId'', newGroupID,
                  ''--restore-from'', pathString (Join assignmentsDir [fst entry])])
             (say (''Assigning group '' @ newGroupID @ '' to application '' @ newAppID @ ''...'') w))
          = Some err
    \<longrightarrow> calls (ApplicationGroupsFile e cfg idMapping assignmentsDir entry w) =
          calls w @ [PrepareOktaCliArgs cfg [''applicationGroups'', ''assignGroupToApplication'',
                       ''--appId'', newAppID, ''--groupId'', newGroupID,
                       ''--restore-from'', pathString (Join assignmentsDir [fst entry])],
                     PrepareOktaCliArgs cfg [''applicationGroups'', ''assignGroupToApplication'',
                       ''--appId'', newAppID, ''--groupId'', newGroupID, ''--data'', ''{}'']])
   \<and> (\<not> IsDir (snd entry) \<and> HasSuffix (fst entry) ''.json''
      \<and> ReadFile (tree w) (Join userPath [fst entry]) = Inr data
      \<and> unmarshalObject e data = Inr obj
      \<and> stringField obj ''id'' = Some oldGroupID
      \<and> GetNewID idMapping ''group'' oldGroupID = (newGroupID, True)
    \<longrightarrow> calls (UserGroupsFile e cfg idMapping newUserID userPath entry w) =
          calls w @ [PrepareOktaCliArgs cfg [''group'', ''addUserToGroup'',
                       ''--groupId'', newGroupID, ''--userId'', newUserID]])
   \<and> (\<not> IsDir (snd entry) \<and> HasSuffix (fst entry) ''.json''
      \<and> ReadFile (tree w) (Join userPath [fst entry]) = Inr data
      \<and> unmarshalObject e data = Inr obj
      \<and> stringField obj ''type'' = Some roleType
    \<longrightarrow> calls (RoleAssignmentFile e cfg newUserID userPath entry w) =
          calls w @ [PrepareOktaCliArgs cfg [''role'', ''assignRoleToUser'',
                       ''--userId'', newUserID, ''--type'', roleType]])
   \<and> (fst (Restore h e cfg idMapping inputDir w) \<noteq> None \<longrightarrow>
        snd (Restore h e cfg idMapping inputDir w) = w)"
proof (intro conjI impI)
  assume a: "\<not> IsDir (snd entry) \<and> HasSuffix (fst entry) ''.json''
      \<and> ReadFile (tree w) (Join assignmentsDir [fst entry]) = Inr data
      \<and> unmarshalObject e data = Inr assignment
      \<and> stringField assignment ''appId'' = Some oldAppID
      \<and> stringField assignment ''id'' = Some oldGroupID
      \<and> GetNewID idMapping ''application'' oldAppID = (newAppID, True)
      \<and> GetNewID idMapping ''group'' oldGroupID = (newGroupID, True)
      \<and> fst (Run e (PrepareOktaCliArgs cfg [''applicationGroups'', ''assignGroupToApplication'',
                  ''--appId'', newAppID, ''--groupId'', newGroupID,
                  ''--restore-from'', pathString (Join assignmentsDir [fst entry])])
             (say (''Assigning group '' @ newGroupID @ '' to application '' @ newAppID @ ''...'') w))
          = Some err"
  let ?primary = "PrepareOktaCliArgs cfg [''applicationGroups'', ''assignGroupToApplication'',
                       ''--appId'', newAppID, ''--groupId'', newGroupID,
                       ''--restore-from'', pathString (Join assignmentsDir [fst entry])]"
  let ?alt = "PrepareOktaCliArgs cfg [''applicationGroups'', ''assignGroupToApplication'',
                       ''--appId'', newAppID, ''--groupId'', newGroupID, ''--data'', ''{}'']"
  let ?w1 = "say (''Assigning group '' @ newGroupID @ '' to application '' @ newAppID @ ''...'') w"
  obtain w2 where r1: "Run e ?primary ?w1 = (Some err, w2)"
    using a by (cases "Run e ?primary ?w1") auto
  obtain err' w4 where r2: "Run e ?alt (say ''Trying alternative assignment method...'' w2) = (err', w4)"
    by (cases "Run e ?alt (say ''Trying alternative assignment method...'' w2)")
  have c2: "calls w2 = calls w @ [?primary]" using Run_calls [OF r1] by simp
  have c4: "calls w4 = calls w @ [?primary, ?alt]" using Run_calls [OF r2] c2 by simp
  have "ApplicationGroupsFile e cfg idMapping assignmentsDir entry w =
          (case err' of Some err'' \<Rightarrow>
              say (''Warning: failed to assign group '' @ newGroupID @
                   '' to application '' @ newAppID @ '': '' @ err'') w4
            | None \<Rightarrow> w4)"
    using a r1 r2 by (simp add: ApplicationGroupsFile_def Let_def split: option.splits)
  with c4 show "calls (ApplicationGroupsFile e cfg idMapping assignmentsDir entry w) =
          calls w @ [?primary, ?alt]"
    by (simp split: option.splits)
next
  assume "\<not> IsDir (snd entry) \<and> HasSuffix (fst entry) ''.json''
      \<and> ReadFile (tree w) (Join userPath [fst entry]) = Inr data
      \<and> unmarshalObject e data = Inr obj
      \<and> stringField obj ''id'' = Some oldGroupID
      \<and> GetNewID idMapping ''group'' oldGroupID = (newGroupID, True)"
  then show "calls (UserGroupsFile e cfg idMapping newUserID userPath entry w) =
          calls w @ [PrepareOktaCliArgs cfg [''group'', ''addUserToGroup'',
                       ''--groupId'', newGroupID, ''--userId'', newUserID]]"
    by (auto simp: UserGroupsFile_def Let_def split: prod.splits option.splits dest!: Run_calls)
next
  assume "\<not> IsDir (snd entry) \<and> HasSuffix (fst entry) ''.json''
      \<and> ReadFile (tree w) (Join userPath [fst entry]) = Inr data
      \<and> unmarshalObject e data = Inr obj
      \<and> stringField obj ''type'' = Some roleType"
  then show "calls (RoleAssignmentFile e cfg newUserID userPath entry w) =
          calls w @ [PrepareOktaCliArgs cfg [''role'', ''assignRoleToUser'',
                       ''--userId'', newUserID, ''--type'', roleType]]"
    by (auto simp: RoleAssignmentFile_def Let_def split: prod.splits option.splits dest!: Run_calls)
next
  assume "fst (Restore h e cfg idMapping inputDir w) \<noteq> None"
  then show "snd (Restore h e cfg idMapping inputDir w) = w"
    by (rule Restore_error_before_records)
qed

text \<open>
  C7, as the specification states it, fails for the user-groups handler: with a
  client whose every run fails, the handler makes one call for the one membership
  record, prints the warning and returns nil.
\<close>

theorem UserGroupsRestore_no_retry:
  \<open>calls (snd (UserGroupsRestore failEnv noConfig someMapping [''backup''] relationsWorld))
     = [[''group'', ''addUserToGroup'', ''--groupId'', ''newG1'', ''--userId'', ''newU1'']]
   \<and> printed (snd (UserGroupsRestore failEnv noConfig someMapping [''backup''] relationsWorld))
     = [''Adding user newU1 to group newG1...'',
        ''Warning: failed to add user newU1 to group newG1: exit status 1'']
   \<and> fst (UserGroupsRestore failEnv noConfig someMapping [''backup''] relationsWorld) = None\<close>
  by (simp add: UserGroupsRestore_def UserGroupsDir_def UserGroupsFile_def HasSuffix_def Let_def
      Join_def ReadFile_def ReadDir_def notExist_def relationsWorld_def
      failEnv_def fakeUnmarshalObject_def stringField_def GetNewID_def someMapping_def
      Run_def start_def say_def PrepareOktaCliArgs_def noConfig_def)

theorem association_handlers_on_failure_witness:
  \<open>calls (ApplicationGroupsFile failEnv noConfig someMapping
            [''backup'', ''applicationgroups'', ''listApplicationGroupAssignments'']
            (''g1.json'', File ''{"id":"g1","appId":"a1"}'') relationsWorld)
     = [[''applicationGroups'', ''assignGroupToApplication'', ''--appId'', ''newA1'', ''--groupId'', ''newG1'',
         ''--restore-from'', ''backup/applicationgroups/listApplicationGroupAssignments/g1.json''],
        [''applicationGroups'', ''assignGroupToApplication'', ''--appId'', ''newA1'', ''--groupId'', ''newG1'',
         ''--data'', ''{}'']]\<close>
proof -
  let ?file = \<open>(''g1.json'', File ''{"id":"g1","appId":"a1"}'')\<close>
  let ?dir = "[''backup'', ''applicationgroups'', ''listApplicationGroupAssignments'']"
  let ?obj = "[(''id'', JString ''g1''), (''appId'', JString ''a1'')]"
  have a: \<open>\<not> IsDir (snd ?file) \<and> HasSuffix (fst ?file) ''.json''
      \<and> ReadFile (tree relationsWorld) (Join ?dir [fst ?file]) = Inr ''{"id":"g1","appId":"a1"}''
      \<and> unmarshalObject failEnv ''{"id":"g1","appId":"a1"}'' = Inr ?obj
      \<and> stringField ?obj ''appId'' = Some ''a1''
      \<and> stringField ?obj ''id'' = Some ''g1''
      \<and> GetNewID someMapping ''application'' ''a1'' = (''newA1'', True)
      \<and> GetNewID someMapping ''group'' ''g1'' = (''newG1'', True)
      \<and> fst (Run failEnv (PrepareOktaCliArgs noConfig [''applicationGroups'', ''assignGroupToApplication'',
                  ''--appId'', ''newA1'', ''--groupId'', ''newG1'',
                  ''--restore-from'', pathString (Join ?dir [fst ?file])])
             (say (''Assigning group '' @ ''newG1'' @ '' to application '' @ ''newA1'' @ ''...'') relationsWorld))
          = Some ''exit status 1''\<close>
    by (simp add: HasSuffix_def ReadFile_def relationsWorld_def Join_def failEnv_def
        fakeUnmarshalObject_def fakeDocs_def stringField_def GetNewID_def someMapping_def
        Run_def start_def)
  show ?thesis
    using association_handlers_on_failure [where e = failEnv and cfg = noConfig
        and idMapping = someMapping and assignmentsDir = ?dir and entry = ?file
        and w = relationsWorld and assignment = ?obj and oldAppID = "''a1''"
        and oldGroupID = "''g1''" and newAppID = "''newA1''" and newGroupID = "''newG1''"
        and err = "''exit status 1''" and data = \<open>''{"id":"g1","appId":"a1"}''\<close>] a
    by (simp add: PrepareOktaCliArgs_def noConfig_def Join_def relationsWorld_def)
qed

text \<open>Every call of the user-groups handler is a group-membership call.\<close>

lemma fold_calls_extend:
  assumes "\<And>x w. \<exists>rest. calls (f x w) = calls w @ rest \<and> (\<forall>c \<in> set rest. P c)"
  shows "\<exists>rest. calls (fold f xs w) = calls w @ rest \<and> (\<forall>c \<in> set rest. P c)"
proof (induction xs arbitrary: w)
  case Nil
  then show ?case by simp
next
  case (Cons x xs)
  obtain r1 where a: "calls (f x w) = calls w @ r1" and p1: "\<forall>c \<in> set r1. P c"
    using assms by blast
  obtain r2 where b: "calls (fold f xs (f x w)) = calls (f x w) @ r2" and p2: "\<forall>c \<in> set r2. P c"
    using Cons.IH by blast
  have "calls (fold f (x # xs) w) = calls w @ (r1 @ r2)" using a b by simp
  moreover have "\<forall>c \<in> set (r1 @ r2). P c" using p1 p2 by auto
  ultimately show ?case by blast
qed

lemma calls_UserGroupsFile:
  "\<exists>rest. calls (UserGroupsFile e cfg idMapping newUserID userPath entry w) = calls w @ rest
     \<and> (\<forall>c \<in> set rest. \<exists>g u. c = PrepareOktaCliArgs cfg
            [''group'', ''addUserToGroup'', ''--groupId'', g, ''--userId'', u])"
proof (cases "calls (UserGroupsFile e cfg idMapping newUserID userPath entry w) = calls w")
  case True
  then have "calls (UserGroupsFile e cfg idMapping newUserID userPath entry w) = calls w @ []" by simp
  then show ?thesis by (metis empty_iff list.set(1))
next
  case False
  then obtain g where "calls (UserGroupsFile e cfg idMapping newUserID userPath entry w) =
      calls w @ [PrepareOktaCliArgs cfg [''group'', ''addUserToGroup'', ''--groupId'', g, ''--userId'', newUserID]]"
    by (auto simp: UserGroupsFile_def Let_def
        split: if_splits sum.splits option.splits prod.splits bool.splits dest!: Run_calls)
  then show ?thesis by auto
qed

lemma calls_UserGroupsDir:
  "\<exists>rest. calls (UserGroupsDir e cfg idMapping userGroupsDir userDir w) = calls w @ rest
     \<and> (\<forall>c \<in> set rest. \<exists>g u. c = PrepareOktaCliArgs cfg
            [''group'', ''addUserToGroup'', ''--groupId'', g, ''--userId'', u])"
proof (cases "calls (UserGroupsDir e cfg idMapping userGroupsDir userDir w) = calls w")
  case True
  then have "calls (UserGroupsDir e cfg idMapping userGroupsDir userDir w) = calls w @ []" by simp
  then show ?thesis by (metis empty_iff list.set(1))
next
  case False
  then obtain newUserID groupFiles where
    "UserGroupsDir e cfg idMapping userGroupsDir userDir w =
       fold (UserGroupsFile e cfg idMapping newUserID (Join userGroupsDir [fst userDir])) groupFiles w"
    by (auto simp: UserGroupsDir_def Let_def split: if_splits sum.splits prod.splits bool.splits)
  then show ?thesis
    using fold_calls_extend [of "UserGroupsFile e cfg idMapping newUserID (Join userGroupsDir [fst userDir])",
        OF calls_UserGroupsFile]
    by simp
qed

lemma calls_UserGroupsRestore:
  "\<exists>rest. calls (snd (UserGroupsRestore e cfg idMapping inputDir w)) = calls w @ rest
     \<and> (\<forall>c \<in> set rest. \<exists>g u. c = PrepareOktaCliArgs cfg
            [''group'', ''addUserToGroup'', ''--groupId'', g, ''--userId'', u])"
proof (cases "snd (UserGroupsRestore e cfg idMapping inputDir w) = w")
  case True
  then have "calls (snd (UserGroupsRestore e cfg idMapping inputDir w)) = calls w @ []" by simp
  then show ?thesis by (metis empty_iff list.set(1))
next
  case False
  then obtain userDirs where
    "snd (UserGroupsRestore e cfg idMapping inputDir w) =
       fold (UserGroupsDir e cfg idMapping (Join inputDir [''user'', ''listGroups''])) userDirs w"
    by (auto simp: UserGroupsRestore_def Let_def split: if_splits sum.splits)
  then show ?thesis
    using fold_calls_extend [of "UserGroupsDir e cfg idMapping (Join inputDir [''user'', ''listGroups''])",
        OF calls_UserGroupsDir]
    by simp
qed

text \<open>
  C9.  The generic second pass skips a descriptor as soon as its name has a custom
  restorer, whatever its list command.  The catalog's descriptors
  \<^verbatim>\<open>user/listAppLinks\<close>, \<^verbatim>\<open>user/listGrants\<close> and
  \<^verbatim>\<open>user/listIdentityProviders\<close> have the name \<^verbatim>\<open>user\<close>, whose restorer
  reads \<^verbatim>\<open>user/listGroups\<close> only: it does nothing when that directory is
  missing, and every call it makes is a group-membership call.  So the records of the
  three descriptors are restored by neither path.
\<close>

theorem custom_name_skips_generic_pass:
  "(map_of customRestorers (Name resource) \<noteq> None \<longrightarrow>
      restoreSecondPassResource e cfg inputDir idMapping resource w = w)
   \<and> set [secondPass ''user'' ''listAppLinks'' ''user'', secondPass ''user'' ''listGrants'' ''user'',
          secondPass ''user'' ''listIdentityProviders'' ''user'']
        \<subseteq> set (SecondPassResources GetBackupConfig)
   \<and> map_of customRestorers ''user'' = Some UserGroupsRestorer
   \<and> (notExist (tree w) (Join inputDir [''user'', ''listGroups'']) \<longrightarrow>
        Restore UserGroupsRestorer e cfg idMapping inputDir w = (None, w))
   \<and> (\<exists>rest. calls (snd (Restore UserGroupsRestorer e cfg idMapping inputDir w)) = calls w @ rest
        \<and> (\<forall>c \<in> set rest. \<exists>g u. c = PrepareOktaCliArgs cfg
              [''group'', ''addUserToGroup'', ''--groupId'', g, ''--userId'', u]))"
proof (intro conjI)
  show "map_of customRestorers (Name resource) \<noteq> None \<longrightarrow>
      restoreSecondPassResource e cfg inputDir idMapping resource w = w"
    by (auto simp: restoreSecondPassResource_def)
  show "set [secondPass ''user'' ''listAppLinks'' ''user'', secondPass ''user'' ''listGrants'' ''user'',
          secondPass ''user'' ''listIdentityProviders'' ''user'']
        \<subseteq> set (SecondPassResources GetBackupConfig)"
    by (simp add: GetBackupConfig_def)
  show "map_of customRestorers ''user'' = Some UserGroupsRestorer"
    by (simp add: customRestorers_def)
  show "notExist (tree w) (Join inputDir [''user'', ''listGroups'']) \<longrightarrow>
        Restore UserGroupsRestorer e cfg idMapping inputDir w = (None, w)"
    by (simp add: UserGroupsRestore_def)
  show "\<exists>rest. calls (snd (Restore UserGroupsRestorer e cfg idMapping inputDir w)) = calls w @ rest
        \<and> (\<forall>c \<in> set rest. \<exists>g u. c = PrepareOktaCliArgs cfg
              [''group'', ''addUserToGroup'', ''--groupId'', g, ''--userId'', u])"
    using calls_UserGroupsRestore by simp
qed

theorem custom_name_skips_generic_pass_witness:
  "restoreSecondPassResource failEnv noConfig [''backup''] someMapping
      (secondPass ''user'' ''listAppLinks'' ''user'') appLinksWorld = appLinksWorld
   \<and> Restore UserGroupsRestorer failEnv noConfig someMapping [''backup''] appLinksWorld
       = (None, appLinksWorld)"
proof -
  have a: "map_of customRestorers (Name (secondPass ''user'' ''listAppLinks'' ''user'')) \<noteq> None"
    by (simp add: customRestorers_def secondPass_def)
  have b: "notExist (tree appLinksWorld) (Join [''backup''] [''user'', ''listGroups''])"
    by (simp add: notExist_def appLinksWorld_def Join_def)
  show ?thesis
    using custom_name_skips_generic_pass [where resource = "secondPass ''user'' ''listAppLinks'' ''user''"
        and e = failEnv and cfg = noConfig and inputDir = "[''backup'']" and idMapping = someMapping
        and w = appLinksWorld] a b
    by blast
qed

section \<open>Restore: the round trip\<close>





lemma FilePath_AddMapping [simp]:
  "FilePath (fst (AddMapping e t old new m w)) = FilePath m"
  by (simp add: AddMapping_def Let_def)




























section \<open>Restore: dependent descriptors without a create\<close>



end
